theory Spec2Isabelle
  imports Main "HOL-Library.Word" "HOL-Library.Signed_Division"
begin

section \<open>Gas monitor (Task21.ino): data model\<close>

text \<open>
  The sketch runs on a 32-bit target (ESP32-C3): \<open>int\<close> and \<open>long\<close> are 32 bits wide,
  so every \<open>uint16_t\<close>, \<open>uint8_t\<close> and \<open>int8_t\<close> operand is promoted to \<open>int\<close> before
  arithmetic and comparison, and the result is narrowed on assignment. The model writes
  the promoted arithmetic over \<open>int\<close> (\<open>uint\<close> reads an unsigned word, \<open>sint\<close> a signed
  one) and narrows with \<open>word_of_int\<close>. C division and remainder truncate towards zero:
  \<open>sdiv\<close> and \<open>smod\<close>.
\<close>

type_synonym u8 = "8 word"
type_synonym u16 = "16 word"
type_synonym u32 = "32 word"
type_synonym s8 = "8 word"

text \<open>\<open>typedef enum { Ok, Control, Critical } State\<close>\<close>

datatype State = Ok | Control | Critical

text \<open>\<open>struct Setting\<close> with its default member initialisers.\<close>

record Setting =
  buzzer_en :: bool
  medium_threshold :: u16
  high_threshold :: u16
  gradient_led_display :: bool

definition default_setting :: Setting where
  "default_setting =
     \<lparr>buzzer_en = False, medium_threshold = 1000, high_threshold = 2000,
      gradient_led_display = False\<rparr>"

text \<open>
  The colour written to \<open>leds[0]\<close>. \<open>CRGB::Green\<close>, \<open>CRGB::Yellow\<close> and \<open>CRGB::Red\<close> are
  predefined colours of the LED library, whose byte values are not part of this
  repository: they stay symbolic. \<open>CRGB r g b\<close> is the three-byte constructor call.
\<close>

datatype crgb = CRGB_Green | CRGB_Yellow | CRGB_Red | CRGB u8 u8 u8

text \<open>The level handed to \<open>digitalWrite\<close>.\<close>

datatype level = LOW | HIGH

definition level_of_bool :: "bool \<Rightarrow> level" where
  "level_of_bool b = (if b then HIGH else LOW)"

text \<open>
  The globals \<open>value\<close>, \<open>state\<close>, \<open>setting\<close>, \<open>leds[0]\<close> and the function-local statics
  \<open>timer\<close> (of \<open>updateState\<close>), \<open>cursor\<close> and \<open>old_state\<close> (of \<open>display\<close>).
\<close>

record sys =
  "value" :: u16
  state :: State
  setting :: Setting
  leds :: crgb
  timer :: u32
  cursor :: s8
  old_state :: State

text \<open>Static storage is zero-initialised; \<open>setting\<close> takes its member initialisers.\<close>

definition boot :: sys where
  "boot = \<lparr>value = 0, state = Ok, setting = default_setting, leds = CRGB 0 0 0,
           timer = 0, cursor = 0, old_state = Ok\<rparr>"

section \<open>updateState\<close>

text \<open>
  Modelled from the spec: the core library's \<open>map(x, in_min, in_max, out_min, out_max)\<close>
  is not part of the repository; the spec calls it the standard linear-map formula,
  \<open>(x - in_min) * (out_max - out_min) / (in_max - in_min) + out_min\<close> over \<open>long\<close>.
  The sketch calls it only with \<open>in_min \<le> x < in_max\<close> below \<open>2^16\<close> and the output
  range 0..255, where the product stays below \<open>2^31\<close>.
\<close>

definition map_long :: "int \<Rightarrow> int \<Rightarrow> int \<Rightarrow> int \<Rightarrow> int \<Rightarrow> int" where
  "map_long x in_min in_max out_min out_max =
     (x - in_min) * (out_max - out_min) sdiv (in_max - in_min) + out_min"

text \<open>Line 106: \<open>value += (now_val - value) / 10\<close>.\<close>

definition lowpass :: "u16 \<Rightarrow> u16 \<Rightarrow> u16" where
  "lowpass v now_val = word_of_int (uint v + (uint now_val - uint v) sdiv 10)"

text \<open>Line 116: \<open>uint8_t color = map(value, medium_threshold, high_threshold, 0, 255)\<close>.\<close>

definition color :: "u16 \<Rightarrow> Setting \<Rightarrow> u8" where
  "color v st =
     word_of_int
       (map_long (uint v) (uint (medium_threshold st)) (uint (high_threshold st)) 0 255)"

text \<open>Line 117: \<open>CRGB(color, 255 - color, 0)\<close>.\<close>

definition gradient :: "u16 \<Rightarrow> Setting \<Rightarrow> crgb" where
  "gradient v st = CRGB (color v st) (word_of_int (255 - uint (color v st))) 0"

text \<open>Lines 108-125: the new \<open>state\<close> and the colour of \<open>leds[0]\<close>.\<close>

definition classify :: "u16 \<Rightarrow> Setting \<Rightarrow> State \<times> crgb" where
  "classify v st =
     (if v < medium_threshold st then (Ok, CRGB_Green)
      else if v < high_threshold st then
        (Control, if gradient_led_display st then gradient v st else CRGB_Yellow)
      else (Critical, CRGB_Red))"

text \<open>The body of the gate: one filter tick with the sample \<open>now_val\<close>.\<close>

definition filterTick :: "u16 \<Rightarrow> sys \<Rightarrow> sys" where
  "filterTick now_val s =
     (let v = lowpass (value s) now_val;
          (st, c) = classify v (setting s)
      in s\<lparr>value := v, state := st, leds := c\<rparr>)"

text \<open>
  \<open>updateState\<close>, with \<open>millis()\<close> and the sample \<open>analogRead\<close> would return as
  arguments. \<open>timer\<close> is never assigned.
\<close>

definition updateState :: "u32 \<Rightarrow> u16 \<Rightarrow> sys \<Rightarrow> sys" where
  "updateState millis now_val s =
     (if millis - timer s > 5 then filterTick now_val s else s)"

text \<open>\<open>n\<close> filter ticks in a row, all with the same raw sample.\<close>

fun filterTicks :: "nat \<Rightarrow> u16 \<Rightarrow> sys \<Rightarrow> sys" where
  "filterTicks 0 now_val s = s"
| "filterTicks (Suc n) now_val s = filterTicks n now_val (filterTick now_val s)"

section \<open>display\<close>

text \<open>The button events of one call: what \<open>isClick\<close> and \<open>isStep\<close> return.\<close>

record buttons =
  ok_click :: bool
  right_click :: bool
  right_step :: bool
  left_click :: bool
  left_step :: bool

definition no_buttons :: buttons where
  "no_buttons = \<lparr>ok_click = False, right_click = False, right_step = False,
                 left_click = False, left_step = False\<rparr>"

text \<open>
  What is sent to the display. The printed texts are Cyrillic strings; the model keeps
  which text is printed and the values formatted into it.
\<close>

datatype oled_text =
  StateLabel State
  | Marker
  | BuzzerRow bool
  | Threshold1Row u16
  | Threshold2Row u16
  | GradientRow bool

datatype oled_op = OledClear | OledSetCursor int int | OledPrint oled_text | OledUpdate

text \<open>Lines 153-162, the \<open>int8_t step\<close>.\<close>

definition step :: "buttons \<Rightarrow> s8" where
  "step b =
     (let st = (0 :: s8);
          st = (if right_click b then st + 10 else st);
          st = (if right_step b then st + 100 else st);
          st = (if left_click b then st - 10 else st);
          st = (if left_step b then st - 100 else st)
      in st)"

text \<open>Line 153-154: \<open>cursor = (cursor + 1) % 4\<close> on a click of the confirm button.\<close>

definition advance :: "buttons \<Rightarrow> s8 \<Rightarrow> s8" where
  "advance b c = (if ok_click b then word_of_int ((sint c + 1) smod 4) else c)"

text \<open>Lines 167-182: the \<open>switch (cursor)\<close>; it has no default case.\<close>

definition edit :: "s8 \<Rightarrow> s8 \<Rightarrow> Setting \<Rightarrow> Setting" where
  "edit c st g =
     (if sint c = 0 then
        (if sint st > 0 then g\<lparr>buzzer_en := True\<rparr> else g\<lparr>buzzer_en := False\<rparr>)
      else if sint c = 1 then
        g\<lparr>medium_threshold := word_of_int (uint (medium_threshold g) + sint st)\<rparr>
      else if sint c = 2 then
        g\<lparr>high_threshold := word_of_int (uint (high_threshold g) + sint st)\<rparr>
      else if sint c = 3 then
        (if sint st > 0 then g\<lparr>gradient_led_display := True\<rparr>
         else g\<lparr>gradient_led_display := False\<rparr>)
      else g)"

text \<open>Lines 188-214: the render.\<close>

definition render :: "State \<Rightarrow> s8 \<Rightarrow> Setting \<Rightarrow> oled_op list" where
  "render st c g =
     [OledClear,
      OledSetCursor 0 0, OledPrint (StateLabel st),
      OledSetCursor 0 (sint c + 1), OledPrint Marker,
      OledSetCursor 8 1, OledPrint (BuzzerRow (buzzer_en g)),
      OledSetCursor 8 2, OledPrint (Threshold1Row (medium_threshold g)),
      OledSetCursor 8 3, OledPrint (Threshold2Row (high_threshold g)),
      OledSetCursor 8 4, OledPrint (GradientRow (gradient_led_display g)),
      OledUpdate]"

text \<open>
  \<open>display\<close>: the operations sent to the display in this call (none when the render is
  skipped) and the new state. \<open>update_flag\<close> is a plain local, initialised to 1.
\<close>

definition display :: "buttons \<Rightarrow> sys \<Rightarrow> oled_op list \<times> sys" where
  "display b s =
     (let update_flag = True;
          (old, update_flag) =
             (if old_state s \<noteq> state s then (state s, True) else (old_state s, update_flag));
          c = advance b (cursor s);
          st = step b;
          (g, update_flag) =
             (if st \<noteq> 0 then (edit c st (setting s), True) else (setting s, update_flag));
          s' = s\<lparr>setting := g, cursor := c, old_state := old\<rparr>
      in (if update_flag then render (state s) c g else [], s'))"

section \<open>buzzerHandler\<close>

text \<open>The level written to the buzzer pin, \<open>millis()\<close> as argument.\<close>

definition buzzerHandler :: "u32 \<Rightarrow> sys \<Rightarrow> level" where
  "buzzerHandler millis s =
     (if buzzer_en (setting s) = False then LOW
      else (case state s of
              Ok \<Rightarrow> LOW
            | Control \<Rightarrow> (let time = millis mod 500 in level_of_bool (time < 50))
            | Critical \<Rightarrow> (let time = millis mod 100 in level_of_bool (time < 50))))"

section \<open>task\<close>

text \<open>
  One iteration of the endless loop of \<open>task\<close>: \<open>updateState(); display(); buzzerHandler()\<close>.
  \<open>t1\<close> and \<open>t2\<close> are the two readings of \<open>millis()\<close>.
\<close>

definition task_iter :: "u32 \<Rightarrow> u16 \<Rightarrow> buttons \<Rightarrow> u32 \<Rightarrow> sys \<Rightarrow> oled_op list \<times> level \<times> sys" where
  "task_iter t1 now_val b t2 s =
     (let s1 = updateState t1 now_val s;
          (ops, s2) = display b s1
      in (ops, buzzerHandler t2 s2, s2))"

section \<open>The low-pass filter\<close>

lemma sdiv10_nonneg: "0 \<le> (d::int) \<Longrightarrow> 0 \<le> d sdiv 10 \<and> d sdiv 10 \<le> d"
  by (simp add: signed_divide_int_def sgn_if) linarith

lemma sdiv10_nonpos: "(d::int) \<le> 0 \<Longrightarrow> d \<le> d sdiv 10 \<and> d sdiv 10 \<le> 0"
  by (simp add: signed_divide_int_def sgn_if) linarith

lemma uint_u16_of_int: "0 \<le> k \<Longrightarrow> k < 65536 \<Longrightarrow> uint (word_of_int k :: u16) = k"
  by (simp add: uint_word_of_int_eq take_bit_int_eq_self)

lemma uint_lowpass: "uint (lowpass s r) = uint s + (uint r - uint s) sdiv 10"
proof -
  let ?n = "uint s + (uint r - uint s) sdiv 10"
  have bs: "0 \<le> uint s" "uint s < 65536" and br: "0 \<le> uint r" "uint r < 65536"
    using uint_lt2p [of s] uint_lt2p [of r] by simp_all
  have "0 \<le> ?n \<and> ?n < 65536"
  proof (cases "uint s \<le> uint r")
    case True
    with sdiv10_nonneg [of "uint r - uint s"] bs br show ?thesis by linarith
  next
    case False
    with sdiv10_nonpos [of "uint r - uint s"] bs br show ?thesis by linarith
  qed
  then show ?thesis
    unfolding lowpass_def by (intro uint_u16_of_int) simp_all
qed

text \<open>
  C6. For every previous smoothed value \<open>s\<close> and raw sample \<open>r\<close>, the value after one
  filter update is \<open>s + (r - s) / 10\<close> with the quotient truncated towards zero, without
  wrap-around, and lies between \<open>s\<close> and \<open>r\<close> inclusive.
\<close>

theorem lowpass_between:
  "uint (lowpass s r) = uint s + (uint r - uint s) sdiv 10 \<and>
   value (filterTick r st) = lowpass (value st) r \<and>
   ((s \<le> lowpass s r \<and> lowpass s r \<le> r) \<or> (r \<le> lowpass s r \<and> lowpass s r \<le> s))"
proof -
  have "(uint s \<le> uint (lowpass s r) \<and> uint (lowpass s r) \<le> uint r) \<or>
        (uint r \<le> uint (lowpass s r) \<and> uint (lowpass s r) \<le> uint s)"
    using sdiv10_nonneg [of "uint r - uint s"] sdiv10_nonpos [of "uint r - uint s"]
    by (simp add: uint_lowpass) linarith
  moreover have "value (filterTick r st) = lowpass (value st) r"
    by (simp add: filterTick_def Let_def split: prod.split)
  ultimately show ?thesis
    by (simp add: uint_lowpass word_le_def)
qed

section \<open>Classification\<close>

lemma classify_state:
  "fst (classify v g) =
     (if v < medium_threshold g then Ok else if v < high_threshold g then Control else Critical)"
  by (simp add: classify_def)

lemma filterTick_fields:
  "value (filterTick r s) = lowpass (value s) r"
  "state (filterTick r s) = fst (classify (lowpass (value s) r) (setting s))"
  "leds (filterTick r s) = snd (classify (lowpass (value s) r) (setting s))"
  "setting (filterTick r s) = setting s"
  "timer (filterTick r s) = timer s"
  "cursor (filterTick r s) = cursor s"
  "old_state (filterTick r s) = old_state s"
  by (simp_all add: filterTick_def Let_def split: prod.split)

text \<open>
  C1. Whenever \<open>updateState\<close> runs its filter tick with thresholds \<open>m < h\<close>, the state it
  leaves is Ok exactly when the smoothed value \<open>v\<close> it leaves is below \<open>m\<close>, Control
  exactly when \<open>m \<le> v < h\<close>, and Critical exactly when \<open>v \<ge> h\<close>.
\<close>

theorem updateState_classifies:
  assumes gate: "millis - timer s > 5"
    and order: "medium_threshold (setting s) < high_threshold (setting s)"
  shows "(state (updateState millis r s) = Ok \<longleftrightarrow>
            value (updateState millis r s) < medium_threshold (setting s)) \<and>
         (state (updateState millis r s) = Control \<longleftrightarrow>
            medium_threshold (setting s) \<le> value (updateState millis r s) \<and>
            value (updateState millis r s) < high_threshold (setting s)) \<and>
         (state (updateState millis r s) = Critical \<longleftrightarrow>
            high_threshold (setting s) \<le> value (updateState millis r s))"
proof -
  have "updateState millis r s = filterTick r s"
    using gate by (simp add: updateState_def)
  then show ?thesis
    using order by (auto simp: filterTick_fields classify_state)
qed

theorem updateState_classifies_witness:
  "(10 :: u32) - timer (boot\<lparr>value := 1500\<rparr>) > 5 \<and>
   medium_threshold (setting (boot\<lparr>value := 1500\<rparr>))
     < high_threshold (setting (boot\<lparr>value := 1500\<rparr>)) \<and>
   value (updateState 10 1500 (boot\<lparr>value := 1500\<rparr>)) = 1500 \<and>
   state (updateState 10 1500 (boot\<lparr>value := 1500\<rparr>)) = Control"
  using updateState_classifies [where s = "boot\<lparr>value := 1500\<rparr>" and millis = 10 and r = 1500]
  by (simp add: boot_def default_setting_def updateState_def filterTick_fields lowpass_def)

text \<open>
  C2, as the code has it. With the smoothed value 2500 and \<open>high_threshold = 2000\<close>, the
  filter tick leaves state Critical and the red colour for every
  \<open>medium_threshold \<le> 2500\<close>, and state Ok and the green colour for every
  \<open>medium_threshold > 2500\<close>: the comparison with \<open>medium_threshold\<close> comes first.
\<close>

theorem critical_at_2500:
  assumes gate: "millis - timer s > 5"
    and v: "value (updateState millis r s) = 2500"
    and h: "high_threshold (setting s) = 2000"
  shows "(medium_threshold (setting s) \<le> 2500 \<longrightarrow>
            state (updateState millis r s) = Critical \<and>
            leds (updateState millis r s) = CRGB_Red) \<and>
         (2500 < medium_threshold (setting s) \<longrightarrow>
            state (updateState millis r s) = Ok \<and>
            leds (updateState millis r s) = CRGB_Green) \<and>
         (state (updateState millis r s) = Critical \<longleftrightarrow> medium_threshold (setting s) \<le> 2500) \<and>
         (leds (updateState millis r s) = CRGB_Red \<longleftrightarrow> medium_threshold (setting s) \<le> 2500)"
proof -
  have u: "updateState millis r s = filterTick r s"
    using gate by (simp add: updateState_def)
  with v have "lowpass (value s) r = 2500"
    by (simp add: filterTick_fields)
  with h show ?thesis
    by (auto simp: u filterTick_fields classify_def)
qed

theorem critical_at_2500_witness:
  "(10 :: u32) - timer (boot\<lparr>value := 2500\<rparr>) > 5 \<and>
   value (updateState 10 2500 (boot\<lparr>value := 2500\<rparr>)) = 2500 \<and>
   high_threshold (setting (boot\<lparr>value := 2500\<rparr>)) = 2000 \<and>
   medium_threshold (setting (boot\<lparr>value := 2500\<rparr>)) \<le> 2500 \<and>
   state (updateState 10 2500 (boot\<lparr>value := 2500\<rparr>)) = Critical \<and>
   leds (updateState 10 2500 (boot\<lparr>value := 2500\<rparr>)) = CRGB_Red \<and>
   (10 :: u32)
     - timer (boot\<lparr>value := 2500, setting := default_setting\<lparr>medium_threshold := 2501\<rparr>\<rparr>) > 5 \<and>
   value (updateState 10 2500
      (boot\<lparr>value := 2500, setting := default_setting\<lparr>medium_threshold := 2501\<rparr>\<rparr>)) = 2500 \<and>
   high_threshold
      (setting (boot\<lparr>value := 2500, setting := default_setting\<lparr>medium_threshold := 2501\<rparr>\<rparr>))
     = 2000 \<and>
   2500 < medium_threshold
      (setting (boot\<lparr>value := 2500, setting := default_setting\<lparr>medium_threshold := 2501\<rparr>\<rparr>)) \<and>
   state (updateState 10 2500
      (boot\<lparr>value := 2500, setting := default_setting\<lparr>medium_threshold := 2501\<rparr>\<rparr>)) = Ok \<and>
   leds (updateState 10 2500
      (boot\<lparr>value := 2500, setting := default_setting\<lparr>medium_threshold := 2501\<rparr>\<rparr>))
     = CRGB_Green"
  using
    critical_at_2500 [where s = "boot\<lparr>value := 2500\<rparr>" and millis = 10 and r = 2500]
    critical_at_2500
      [where s = "boot\<lparr>value := 2500, setting := default_setting\<lparr>medium_threshold := 2501\<rparr>\<rparr>"
         and millis = 10 and r = 2500]
  by (simp add: boot_def default_setting_def updateState_def filterTick_fields lowpass_def)

text \<open>
  C2 as stated fails: with \<open>medium_threshold = 3000\<close>, the smoothed value 2500 and
  \<open>high_threshold = 2000\<close> give state Ok and the green colour.
\<close>

theorem critical_regardless_of_medium_counterexample:
  "value (updateState 10 2500
      (boot\<lparr>value := 2500, setting := default_setting\<lparr>medium_threshold := 3000\<rparr>\<rparr>)) = 2500 \<and>
   high_threshold (setting (updateState 10 2500
      (boot\<lparr>value := 2500, setting := default_setting\<lparr>medium_threshold := 3000\<rparr>\<rparr>))) = 2000 \<and>
   state (updateState 10 2500
      (boot\<lparr>value := 2500, setting := default_setting\<lparr>medium_threshold := 3000\<rparr>\<rparr>)) = Ok \<and>
   leds (updateState 10 2500
      (boot\<lparr>value := 2500, setting := default_setting\<lparr>medium_threshold := 3000\<rparr>\<rparr>)) = CRGB_Green"
  by (simp add: boot_def default_setting_def updateState_def filterTick_fields lowpass_def
      classify_def)

section \<open>The alarm waveform\<close>

text \<open>
  C3. For every timestamp: with the buzzer enabled and state Control the level written
  is HIGH exactly when \<open>now mod 500 < 50\<close>; enabled and Critical, exactly when
  \<open>now mod 100 < 50\<close>; with state Ok or the buzzer disabled it is LOW.
\<close>

theorem buzzerHandler_waveform:
  "(buzzer_en (setting s) \<and> state s = Control \<longrightarrow>
      (buzzerHandler now s = HIGH \<longleftrightarrow> unat now mod 500 < 50) \<and>
      (buzzerHandler now s = LOW \<longleftrightarrow> \<not> unat now mod 500 < 50)) \<and>
   (buzzer_en (setting s) \<and> state s = Critical \<longrightarrow>
      (buzzerHandler now s = HIGH \<longleftrightarrow> unat now mod 100 < 50) \<and>
      (buzzerHandler now s = LOW \<longleftrightarrow> \<not> unat now mod 100 < 50)) \<and>
   (state s = Ok \<or> \<not> buzzer_en (setting s) \<longrightarrow> buzzerHandler now s = LOW)"
  by (auto simp: buzzerHandler_def level_of_bool_def Let_def word_less_nat_alt unat_mod_distrib
      split: State.splits)

theorem buzzerHandler_waveform_witness:
  "buzzer_en (setting (boot\<lparr>state := Control, setting := default_setting\<lparr>buzzer_en := True\<rparr>\<rparr>)) \<and>
   buzzerHandler 1030 (boot\<lparr>state := Control, setting := default_setting\<lparr>buzzer_en := True\<rparr>\<rparr>)
     = HIGH \<and>
   unat (1030 :: u32) mod 500 < 50 \<and>
   buzzerHandler 1060 (boot\<lparr>state := Critical, setting := default_setting\<lparr>buzzer_en := True\<rparr>\<rparr>)
     = LOW \<and>
   \<not> unat (1060 :: u32) mod 100 < 50 \<and>
   state boot = Ok \<and> buzzerHandler 1030 boot = LOW"
  using
    buzzerHandler_waveform
      [of "boot\<lparr>state := Control, setting := default_setting\<lparr>buzzer_en := True\<rparr>\<rparr>" 1030]
    buzzerHandler_waveform
      [of "boot\<lparr>state := Critical, setting := default_setting\<lparr>buzzer_en := True\<rparr>\<rparr>" 1060]
    buzzerHandler_waveform [of boot 1030]
  by (simp add: boot_def default_setting_def)

section \<open>The settings menu\<close>

lemma display_fields:
  "setting (snd (display b s)) =
     (if step b \<noteq> 0 then edit (advance b (cursor s)) (step b) (setting s) else setting s)"
  "cursor (snd (display b s)) = advance b (cursor s)"
  "old_state (snd (display b s)) = state s"
  "value (snd (display b s)) = value s"
  "state (snd (display b s)) = state s"
  "leds (snd (display b s)) = leds s"
  "timer (snd (display b s)) = timer s"
  by (simp_all add: display_def Let_def)

lemma display_ops:
  "fst (display b s) = render (state s) (cursor (snd (display b s))) (setting (snd (display b s)))"
  by (simp add: display_def Let_def)

lemma sint_step:
  "sint (step b) =
     (if right_click b then 10 else 0) + (if right_step b then 100 else 0)
     - (if left_click b then 10 else 0) - (if left_step b then 100 else 0)"
  by (simp add: step_def Let_def)

lemma uint_edit_threshold:
  "uint (word_of_int (uint (x :: u16) + d) :: u16) = (uint x + d) mod 65536"
  unfolding uint_word_of_int_eq take_bit_eq_mod by simp

text \<open>
  C8. The net delta of one call of \<open>display\<close> is the sum of +10 (increase click), +100
  (increase hold), -10 (decrease click) and -100 (decrease hold), each counted when its
  event fires; with both increase events and no decrease event it is 110, and with the
  cursor on row 1 \<open>medium_threshold\<close> grows by 110 (in unsigned 16-bit arithmetic).
\<close>

theorem click_and_hold_add:
  "sint (step b) =
     (if right_click b then 10 else 0) + (if right_step b then 100 else 0)
     - (if left_click b then 10 else 0) - (if left_step b then 100 else 0) \<and>
   (right_click b \<and> right_step b \<and> \<not> left_click b \<and> \<not> left_step b \<longrightarrow>
      sint (step b) = 110 \<and>
      (sint (cursor (snd (display b s))) = 1 \<longrightarrow>
         medium_threshold (setting (snd (display b s))) = medium_threshold (setting s) + 110 \<and>
         uint (medium_threshold (setting (snd (display b s))))
           = (uint (medium_threshold (setting s)) + 110) mod 65536))"
proof -
  have "medium_threshold (setting (snd (display b s))) = medium_threshold (setting s) + 110 \<and>
        uint (medium_threshold (setting (snd (display b s))))
          = (uint (medium_threshold (setting s)) + 110) mod 65536"
    if c: "sint (cursor (snd (display b s))) = 1" and st: "sint (step b) = 110"
  proof -
    from st have nz: "step b \<noteq> 0" by auto
    from c have c': "sint (advance b (cursor s)) = 1" by (simp add: display_fields)
    have "medium_threshold (setting (snd (display b s))) = medium_threshold (setting s) + 110"
      using nz c' st by (simp add: display_fields edit_def)
    then show ?thesis
      by (simp add: uint_word_ariths)
  qed
  then show ?thesis
    by (auto simp: sint_step)
qed

theorem click_and_hold_add_witness:
  "right_click (no_buttons\<lparr>right_click := True, right_step := True\<rparr>) \<and>
   right_step (no_buttons\<lparr>right_click := True, right_step := True\<rparr>) \<and>
   \<not> left_click (no_buttons\<lparr>right_click := True, right_step := True\<rparr>) \<and>
   \<not> left_step (no_buttons\<lparr>right_click := True, right_step := True\<rparr>) \<and>
   sint (cursor (snd (display (no_buttons\<lparr>right_click := True, right_step := True\<rparr>)
      (boot\<lparr>cursor := 1\<rparr>)))) = 1 \<and>
   medium_threshold (setting (boot\<lparr>cursor := 1\<rparr>)) = 1000 \<and>
   medium_threshold (setting (snd (display (no_buttons\<lparr>right_click := True, right_step := True\<rparr>)
      (boot\<lparr>cursor := 1\<rparr>)))) = 1110"
  using click_and_hold_add
    [where b = "no_buttons\<lparr>right_click := True, right_step := True\<rparr>"
       and s = "boot\<lparr>cursor := 1\<rparr>"]
  by (simp add: no_buttons_def boot_def default_setting_def display_fields advance_def)

text \<open>
  C9. A call of \<open>display\<close> with a nonzero net delta \<open>d\<close> and the cursor on row 1 (row 2)
  leaves \<open>medium_threshold\<close> (\<open>high_threshold\<close>) at \<open>(old + d) mod 2^16\<close>: unchecked
  unsigned 16-bit addition, which wraps when a negative delta passes below zero.
\<close>

theorem threshold_edit_wraps:
  assumes nz: "step b \<noteq> 0"
  shows "(sint (cursor (snd (display b s))) = 1 \<longrightarrow>
            uint (medium_threshold (setting (snd (display b s))))
              = (uint (medium_threshold (setting s)) + sint (step b)) mod 2 ^ 16) \<and>
         (sint (cursor (snd (display b s))) = 2 \<longrightarrow>
            uint (high_threshold (setting (snd (display b s))))
              = (uint (high_threshold (setting s)) + sint (step b)) mod 2 ^ 16)"
  using nz by (simp add: display_fields edit_def uint_edit_threshold del: of_int_add)

theorem threshold_edit_wraps_witness:
  "step (no_buttons\<lparr>left_click := True, left_step := True\<rparr>) \<noteq> 0 \<and>
   sint (step (no_buttons\<lparr>left_click := True, left_step := True\<rparr>)) = - 110 \<and>
   sint (cursor (snd (display (no_buttons\<lparr>left_click := True, left_step := True\<rparr>)
      (boot\<lparr>cursor := 1, setting := default_setting\<lparr>medium_threshold := 100\<rparr>\<rparr>)))) = 1 \<and>
   uint (medium_threshold (setting (snd (display (no_buttons\<lparr>left_click := True, left_step := True\<rparr>)
      (boot\<lparr>cursor := 1, setting := default_setting\<lparr>medium_threshold := 100\<rparr>\<rparr>))))) = 65526 \<and>
   sint (cursor (snd (display (no_buttons\<lparr>left_click := True, left_step := True\<rparr>)
      (boot\<lparr>cursor := 2\<rparr>)))) = 2 \<and>
   uint (high_threshold (setting (snd (display (no_buttons\<lparr>left_click := True, left_step := True\<rparr>)
      (boot\<lparr>cursor := 2\<rparr>))))) = 1890"
  using
    threshold_edit_wraps
      [where b = "no_buttons\<lparr>left_click := True, left_step := True\<rparr>"
         and s = "boot\<lparr>cursor := 1, setting := default_setting\<lparr>medium_threshold := 100\<rparr>\<rparr>"]
    threshold_edit_wraps
      [where b = "no_buttons\<lparr>left_click := True, left_step := True\<rparr>"
         and s = "boot\<lparr>cursor := 2\<rparr>"]
  by (simp add: no_buttons_def boot_def default_setting_def display_fields advance_def sint_step
      step_def)

text \<open>
  C10. A call of \<open>display\<close> changes no settings field but the one of the row the
  cursor is on when the delta is applied (the cursor the call leaves, which is the
  incoming cursor unless the confirm button was clicked); with a zero net delta, as when
  no button fired, it changes none of the four.
\<close>

theorem display_frame:
  "(sint (cursor (snd (display b s))) \<noteq> 0 \<longrightarrow>
      buzzer_en (setting (snd (display b s))) = buzzer_en (setting s)) \<and>
   (sint (cursor (snd (display b s))) \<noteq> 1 \<longrightarrow>
      medium_threshold (setting (snd (display b s))) = medium_threshold (setting s)) \<and>
   (sint (cursor (snd (display b s))) \<noteq> 2 \<longrightarrow>
      high_threshold (setting (snd (display b s))) = high_threshold (setting s)) \<and>
   (sint (cursor (snd (display b s))) \<noteq> 3 \<longrightarrow>
      gradient_led_display (setting (snd (display b s))) = gradient_led_display (setting s)) \<and>
   (step b = 0 \<longrightarrow> setting (snd (display b s)) = setting s) \<and>
   (b = no_buttons \<longrightarrow> step b = 0) \<and>
   (\<not> ok_click b \<longrightarrow> cursor (snd (display b s)) = cursor s)"
proof -
  have fields:
    "sint c \<noteq> 0 \<longrightarrow> buzzer_en (edit c st g) = buzzer_en g"
    "sint c \<noteq> 1 \<longrightarrow> medium_threshold (edit c st g) = medium_threshold g"
    "sint c \<noteq> 2 \<longrightarrow> high_threshold (edit c st g) = high_threshold g"
    "sint c \<noteq> 3 \<longrightarrow> gradient_led_display (edit c st g) = gradient_led_display g"
    for c st g
    by (simp_all add: edit_def)
  have idle: "step no_buttons = 0"
    by (simp add: step_def no_buttons_def)
  have keep: "\<not> ok_click b \<longrightarrow> cursor (snd (display b s)) = cursor s"
    by (simp add: display_fields advance_def)
  show ?thesis
    using fields [of "advance b (cursor s)" "step b" "setting s"] idle keep
    by (auto simp: display_fields)
qed

theorem display_frame_witness:
  "sint (cursor (snd (display (no_buttons\<lparr>right_click := True\<rparr>) (boot\<lparr>cursor := 1\<rparr>)))) = 1 \<and>
   medium_threshold (setting (snd (display (no_buttons\<lparr>right_click := True\<rparr>) (boot\<lparr>cursor := 1\<rparr>))))
     = 1010 \<and>
   buzzer_en (setting (snd (display (no_buttons\<lparr>right_click := True\<rparr>) (boot\<lparr>cursor := 1\<rparr>))))
     = buzzer_en (setting (boot\<lparr>cursor := 1\<rparr>)) \<and>
   high_threshold (setting (snd (display (no_buttons\<lparr>right_click := True\<rparr>) (boot\<lparr>cursor := 1\<rparr>))))
     = high_threshold (setting (boot\<lparr>cursor := 1\<rparr>)) \<and>
   gradient_led_display
       (setting (snd (display (no_buttons\<lparr>right_click := True\<rparr>) (boot\<lparr>cursor := 1\<rparr>))))
     = gradient_led_display (setting (boot\<lparr>cursor := 1\<rparr>)) \<and>
   step no_buttons = 0 \<and>
   setting (snd (display no_buttons (boot\<lparr>cursor := 1\<rparr>))) = setting (boot\<lparr>cursor := 1\<rparr>) \<and>
   cursor (snd (display no_buttons (boot\<lparr>cursor := 1\<rparr>))) = cursor (boot\<lparr>cursor := 1\<rparr>)"
  using
    display_frame [where b = "no_buttons\<lparr>right_click := True\<rparr>" and s = "boot\<lparr>cursor := 1\<rparr>"]
    display_frame [where b = no_buttons and s = "boot\<lparr>cursor := 1\<rparr>"]
  by (simp add: no_buttons_def boot_def default_setting_def display_fields advance_def step_def
      edit_def)

section \<open>The redraw condition\<close>

text \<open>
  C4 asks for no render in a call of \<open>display\<close> in which neither the state changed nor
  a setting was edited nor the cursor advanced. The code renders all the same, since
  \<open>update_flag\<close> starts at 1 in every call: from the power-on state, with no button
  event and \<open>old_state = state\<close>, the whole frame is drawn and nothing else changes.
\<close>

theorem display_renders_when_idle:
  "old_state boot = state boot \<and> step no_buttons = 0 \<and> \<not> ok_click no_buttons \<and>
   snd (display no_buttons boot) = boot \<and>
   fst (display no_buttons boot) = render Ok 0 default_setting \<and>
   fst (display no_buttons boot) \<noteq> [] \<and>
   fst (task_iter 0 0 no_buttons 0 boot) = render Ok 0 default_setting"
  by (simp add: display_def task_iter_def updateState_def Let_def step_def advance_def
      no_buttons_def boot_def render_def)

section \<open>The gradient colour\<close>









section \<open>A steady raw sample of 500\<close>

lemma tick500_below:
  fixes v :: int
  shows "v \<le> 491 \<Longrightarrow>
    min 491 (v + 1) \<le> v + (500 - v) sdiv 10 \<and> v + (500 - v) sdiv 10 \<le> 491"
  by (simp add: signed_divide_int_def sgn_if) linarith

lemma tick500_above:
  fixes v :: int
  shows "509 \<le> v \<Longrightarrow>
    v + (500 - v) sdiv 10 \<le> max 509 (v - 1) \<and> 509 \<le> v + (500 - v) sdiv 10"
  by (simp add: signed_divide_int_def sgn_if) linarith

lemma tick500_near:
  fixes v :: int
  shows "491 \<le> v \<Longrightarrow> v \<le> 509 \<Longrightarrow> v + (500 - v) sdiv 10 = v"
  by (simp add: signed_divide_int_def sgn_if)

lemma value_tick500: "uint (value (filterTick 500 s)) = uint (value s) + (500 - uint (value s)) sdiv 10"
  by (simp add: filterTick_fields uint_lowpass)

lemma setting_filterTicks: "setting (filterTicks n r s) = setting s"
  by (induction n arbitrary: s) (simp_all add: filterTick_fields)

lemma filterTicks_Suc: "filterTicks (Suc n) r s = filterTick r (filterTicks n r s)"
  by (induction n arbitrary: s) simp_all

lemma rise_to_491:
  "uint (value s) \<le> 491 \<Longrightarrow>
     min 491 (uint (value s) + int n) \<le> uint (value (filterTicks n 500 s)) \<and>
     uint (value (filterTicks n 500 s)) \<le> 491"
proof (induction n arbitrary: s)
  case 0
  then show ?case by simp
next
  case (Suc n)
  let ?v = "uint (value s)" and ?s1 = "filterTick 500 s"
  have step: "min 491 (?v + 1) \<le> uint (value ?s1)" "uint (value ?s1) \<le> 491"
    using tick500_below [OF Suc.prems] by (simp_all add: value_tick500)
  from Suc.IH [OF step(2)] have
    "min 491 (uint (value ?s1) + int n) \<le> uint (value (filterTicks (Suc n) 500 s))"
    "uint (value (filterTicks (Suc n) 500 s)) \<le> 491"
    by simp_all
  with step(1) show ?case
    by (simp only: of_nat_Suc) arith
qed

lemma fall_to_509:
  "509 \<le> uint (value s) \<Longrightarrow>
     uint (value (filterTicks n 500 s)) \<le> max 509 (uint (value s) - int n) \<and>
     509 \<le> uint (value (filterTicks n 500 s))"
proof (induction n arbitrary: s)
  case 0
  then show ?case by simp
next
  case (Suc n)
  let ?v = "uint (value s)" and ?s1 = "filterTick 500 s"
  have step: "uint (value ?s1) \<le> max 509 (?v - 1)" "509 \<le> uint (value ?s1)"
    using tick500_above [OF Suc.prems] by (simp_all add: value_tick500)
  from Suc.IH [OF step(2)] have
    "uint (value (filterTicks (Suc n) 500 s)) \<le> max 509 (uint (value ?s1) - int n)"
    "509 \<le> uint (value (filterTicks (Suc n) 500 s))"
    by simp_all
  with step(1) show ?case
    by (simp only: of_nat_Suc) arith
qed

lemma stay_near_500:
  "491 \<le> uint (value s) \<Longrightarrow> uint (value s) \<le> 509 \<Longrightarrow>
     uint (value (filterTicks n 500 s)) = uint (value s)"
proof (induction n arbitrary: s)
  case 0
  then show ?case by simp
next
  case (Suc n)
  have "uint (value (filterTick 500 s)) = uint (value s)"
    using Suc.prems tick500_near [of "uint (value s)"] by (simp add: value_tick500)
  with Suc.IH [of "filterTick 500 s"] Suc.prems show ?case
    by simp
qed

lemma settled_value:
  assumes n: "nat \<bar>uint (value s) - 500\<bar> < n"
  shows "uint (value (filterTicks n 500 s)) = max 491 (min 509 (uint (value s)))"
proof -
  consider "uint (value s) \<le> 491" | "491 < uint (value s)" "uint (value s) < 509"
    | "509 \<le> uint (value s)"
    by linarith
  then show ?thesis
  proof cases
    case 1
    with rise_to_491 [OF 1, of n] n show ?thesis by arith
  next
    case 2
    with stay_near_500 [of s n] show ?thesis by simp
  next
    case 3
    with fall_to_509 [OF 3, of n] n show ?thesis by arith
  qed
qed

text \<open>
  C5, as the code has it. With the raw sample 500 on every filter tick and the default
  thresholds, after more than \<open>|v0 - 500|\<close> ticks from the smoothed value \<open>v0\<close> the
  smoothed value is the one of 491..509 nearest to \<open>v0\<close> (the quotient
  \<open>(500 - v) / 10\<close> truncates to 0 there), a further tick changes nothing, the state is
  Ok, the colour green and the buzzer level LOW.
\<close>

theorem settles_near_500:
  assumes m: "medium_threshold (setting s) = 1000"
    and h: "high_threshold (setting s) = 2000"
    and n: "nat \<bar>uint (value s) - 500\<bar> < n"
  shows "uint (value (filterTicks n 500 s)) = max 491 (min 509 (uint (value s))) \<and>
         filterTick 500 (filterTicks n 500 s) = filterTicks n 500 s \<and>
         state (filterTicks n 500 s) = Ok \<and>
         leds (filterTicks n 500 s) = CRGB_Green \<and>
         buzzerHandler now (filterTicks n 500 s) = LOW"
proof -
  let ?s' = "filterTicks n 500 s"
  have v: "uint (value ?s') = max 491 (min 509 (uint (value s)))"
    using n by (rule settled_value)
  then have rng: "491 \<le> uint (value ?s')" "uint (value ?s') \<le> 509"
    by simp_all
  from n obtain k where k: "n = Suc k"
    by (cases n) simp_all
  have last: "?s' = filterTick 500 (filterTicks k 500 s)"
    unfolding k by (rule filterTicks_Suc)
  have g: "setting ?s' = setting s"
    by (rule setting_filterTicks)
  have below: "value ?s' < medium_threshold (setting s)"
    using rng m by (simp add: word_less_def)
  have cls: "classify (value ?s') (setting s) = (Ok, CRGB_Green)"
    using below by (simp add: classify_def)
  have "state ?s' = fst (classify (value ?s') (setting s))"
    and "leds ?s' = snd (classify (value ?s') (setting s))"
    by (subst (1 2) last, simp add: filterTick_fields setting_filterTicks)+
  with cls have st: "state ?s' = Ok" and led: "leds ?s' = CRGB_Green"
    by simp_all
  have "uint (lowpass (value ?s') 500) = uint (value ?s')"
    using rng tick500_near [of "uint (value ?s')"] by (simp add: uint_lowpass)
  then have fp: "lowpass (value ?s') 500 = value ?s'"
    by (simp add: word_uint_eq_iff)
  have "filterTick 500 ?s' = ?s'"
    by (simp add: filterTick_def Let_def fp g cls st [symmetric] led [symmetric])
  moreover have "buzzerHandler now ?s' = LOW"
    by (simp add: buzzerHandler_def st)
  ultimately show ?thesis
    using v st led by simp
qed

theorem settles_near_500_witness:
  "medium_threshold (setting (boot\<lparr>value := 498\<rparr>)) = 1000 \<and>
   high_threshold (setting (boot\<lparr>value := 498\<rparr>)) = 2000 \<and>
   nat \<bar>uint (value (boot\<lparr>value := 498\<rparr>)) - 500\<bar> < 3 \<and>
   uint (value (filterTicks 3 500 (boot\<lparr>value := 498\<rparr>))) = 498 \<and>
   state (filterTicks 3 500 (boot\<lparr>value := 498\<rparr>)) = Ok \<and>
   leds (filterTicks 3 500 (boot\<lparr>value := 498\<rparr>)) = CRGB_Green \<and>
   buzzerHandler 0 (filterTicks 3 500 (boot\<lparr>value := 498\<rparr>)) = LOW"
  using settles_near_500 [where s = "boot\<lparr>value := 498\<rparr>" and n = 3 and now = 0]
  by (simp add: boot_def default_setting_def)

text \<open>
  C5 as stated fails: from the power-on state (smoothed value 0, default thresholds) 43
  ticks with the raw sample 500 reach the smoothed value 491, and a further tick leaves
  the whole state as it is, so the value stays at 491 and never reaches 500.
\<close>

theorem settles_at_500_counterexample:
  "medium_threshold (setting boot) = 1000 \<and> high_threshold (setting boot) = 2000 \<and>
   value boot = 0 \<and>
   value (filterTicks 43 500 boot) = 491 \<and>
   filterTick 500 (filterTicks 43 500 boot) = filterTicks 43 500 boot"
  by code_simp

end
